theory Spec2Isabelle
  imports Complex_Main "HOL-Library.Multiset"
begin

section \<open>Errors and arithmetic of the source language\<close>

text \<open>
  The exceptions the modelled functions can raise. \<open>LookupError\<close> stands for a failed
  subscript (\<open>kb.relations[rel_id]\<close>, \<open>rel.entity_ids[1]\<close>: KeyError or IndexError),
  \<open>CsvError\<close> for the \<open>Error\<close> of the \<open>csv\<close> module.
\<close>

datatype py_error = KeyError | LookupError | ZeroDivisionError | ValueError | CsvError

text \<open>Python's true division \<open>a / b\<close>: raises when the divisor is zero.\<close>

definition py_truediv :: "real \<Rightarrow> real \<Rightarrow> py_error + real" where
  "py_truediv a b = (if b = 0 then Inl ZeroDivisionError else Inr (a / b))"

section \<open>Knowledge bases (the part FeatureGenerator.py reads)\<close>

type_synonym tokens = "string list"

record entity =
  research_entity_id :: string
  canonical_name :: string
  aliases :: "string list"
  relation_ids :: "nat list"

record relation =
  relation_type :: string
  entity_ids :: "string list"

text \<open>
  \<open>kb.relations[rel_id]\<close> is a subscript that can fail, \<open>research_entity_id_to_entity_index\<close>
  is used for membership only, and \<open>get_entity_by_research_entity_id\<close> (kb\_utils\_refactor,
  not in the sources) returns an entity or \<open>None\<close>.
\<close>

record knowledge_base =
  entities :: "entity list"
  relations :: "nat \<rightharpoonup> relation"
  research_entity_id_to_entity_index :: "string \<rightharpoonup> nat"
  get_entity_by_research_entity_id :: "string \<Rightarrow> entity option"

section \<open>String utilities\<close>

text \<open>
  \<open>string_utils\<close>, the NLTK tokenizer, stemmer and lemmatizer, and \<open>constants.NGRAM_SIZE\<close>
  are not in the sources: they are parameters of the model. \<open>tokenize_string\<close> stands for
  \<open>string_utils.tokenize_string(_, self.tokenizer, self.STOP)\<close>, whose result is hashable
  (the source puts it into sets).
\<close>

record text_tools =
  normalize_string :: "string \<Rightarrow> string"
  tokenize_string :: "string \<Rightarrow> tokens"
  get_character_n_grams :: "string \<Rightarrow> nat \<Rightarrow> tokens"
  stem :: "string \<Rightarrow> string"
  lemmatize :: "string \<Rightarrow> string"
  NGRAM_SIZE :: nat

text \<open>
  Modelled from the spec: \<open>string_utils.get_jaccard_similarity\<close> is missing from the sources;
  the spec gives \<open>|A \<inter> B| / |A \<union> B|\<close>, and 1.0 when both sets are empty.
\<close>

definition get_jaccard_similarity :: "'a set \<Rightarrow> 'a set \<Rightarrow> real" where
  "get_jaccard_similarity A B =
     (if A \<union> B = {} then 1 else real (card (A \<inter> B)) / real (card (A \<union> B)))"

text \<open>\<open>nltk.metrics.distance.edit_distance\<close> with its defaults: Levenshtein distance.\<close>

fun edit_distance :: "'a list \<Rightarrow> 'a list \<Rightarrow> nat" where
  "edit_distance [] ys = length ys"
| "edit_distance (x # xs) [] = Suc (length xs)"
| "edit_distance (x # xs) (y # ys) =
     min (min (edit_distance xs (y # ys) + 1) (edit_distance (x # xs) ys + 1))
         (edit_distance xs ys + (if x = y then 0 else 1))"

section \<open>FeatureGenerator\<close>

definition PARENT_REL_LABELS :: "string list" where
  "PARENT_REL_LABELS =
     [''RB'', ''PAR'', ''Is a'', ''Part of'', ''subClassOf'', ''is_a'', ''part_of'']"

definition CHILD_REL_LABELS :: "string list" where
  "CHILD_REL_LABELS = [''RN'', ''CHD'', ''Has part'', ''subClass'', ''has_part'']"

subsection \<open>\<open>_get_ent_names_from_relations\<close>\<close>

text \<open>\<open>[kb.relations[rel_id] for rel_id in ent.relation_ids]\<close>: the first failing subscript raises.\<close>

fun lookup_relations :: "knowledge_base \<Rightarrow> nat list \<Rightarrow> py_error + relation list" where
  "lookup_relations kb [] = Inr []"
| "lookup_relations kb (rel_id # ids) =
     (case relations kb rel_id of
        None \<Rightarrow> Inl LookupError
      | Some rel \<Rightarrow>
          (case lookup_relations kb ids of
             Inl e \<Rightarrow> Inl e
           | Inr rels \<Rightarrow> Inr (rel # rels)))"

text \<open>
  The comprehension that selects \<open>rel.entity_ids[1]\<close>. Python's \<open>and\<close> reads
  \<open>entity_ids[1]\<close> only for a relation of a matching type; it raises when the relation
  has fewer than two endpoints.
\<close>

fun second_endpoints :: "knowledge_base \<Rightarrow> string list \<Rightarrow> relation list \<Rightarrow> py_error + string list" where
  "second_endpoints kb rel_types [] = Inr []"
| "second_endpoints kb rel_types (rel # rels) =
     (if relation_type rel \<in> set rel_types then
        (if length (entity_ids rel) < 2 then Inl LookupError
         else
           (case second_endpoints kb rel_types rels of
              Inl e \<Rightarrow> Inl e
            | Inr ids \<Rightarrow>
                if entity_ids rel ! 1 \<in> dom (research_entity_id_to_entity_index kb)
                then Inr (entity_ids rel ! 1 # ids) else Inr ids))
      else second_endpoints kb rel_types rels)"

text \<open>The loop that resolves each id and appends the tokenized canonical name.\<close>

fun resolve_names :: "text_tools \<Rightarrow> knowledge_base \<Rightarrow> string list \<Rightarrow> tokens list" where
  "resolve_names U kb [] = []"
| "resolve_names U kb (ent_id # ids) =
     (case get_entity_by_research_entity_id kb ent_id of
        None \<Rightarrow> resolve_names U kb ids
      | Some e \<Rightarrow>
          tokenize_string U (normalize_string U (canonical_name e)) # resolve_names U kb ids)"

definition get_ent_names_from_relations ::
  "text_tools \<Rightarrow> entity \<Rightarrow> knowledge_base \<Rightarrow> string list \<Rightarrow> py_error + tokens list" where
  "get_ent_names_from_relations U ent kb rel_types =
     (case lookup_relations kb (relation_ids ent) of
        Inl e \<Rightarrow> Inl e
      | Inr matching_rels \<Rightarrow>
          (case second_endpoints kb rel_types matching_rels of
             Inl e \<Rightarrow> Inl e
           | Inr ent_ids \<Rightarrow> Inr (resolve_names U kb ent_ids)))"

subsection \<open>\<open>_compute_tokens\<close> and \<open>_generate_token_maps\<close>\<close>

record token_signature =
  name_tokens :: tokens
  stemmed_tokens :: tokens
  lemmatized_tokens :: tokens
  char_tokens :: tokens
  alias_tokens :: "tokens list"
  parent_names :: "tokens set"
  child_names :: "tokens set"

definition compute_tokens ::
  "text_tools \<Rightarrow> entity \<Rightarrow> knowledge_base \<Rightarrow> py_error + token_signature" where
  "compute_tokens U ent kb =
     (let name_string = normalize_string U (canonical_name ent);
          name_toks = tokenize_string U name_string
      in case get_ent_names_from_relations U ent kb PARENT_REL_LABELS of
           Inl e \<Rightarrow> Inl e
         | Inr parents \<Rightarrow>
             (case get_ent_names_from_relations U ent kb CHILD_REL_LABELS of
                Inl e \<Rightarrow> Inl e
              | Inr children \<Rightarrow>
                  Inr \<lparr> name_tokens = name_toks,
                        stemmed_tokens = map (stem U) name_toks,
                        lemmatized_tokens = map (lemmatize U) name_toks,
                        char_tokens = get_character_n_grams U name_string (NGRAM_SIZE U),
                        alias_tokens =
                          map (\<lambda>a. tokenize_string U (normalize_string U a)) (aliases ent),
                        parent_names = set parents,
                        child_names = set children \<rparr>))"

text \<open>One loop of \<open>_generate_token_maps\<close>: a later entity with the same id overwrites.\<close>

fun fill_tokens ::
  "text_tools \<Rightarrow> knowledge_base \<Rightarrow> entity list \<Rightarrow> (string \<rightharpoonup> token_signature)
     \<Rightarrow> py_error + (string \<rightharpoonup> token_signature)" where
  "fill_tokens U kb [] m = Inr m"
| "fill_tokens U kb (ent # ents) m =
     (case compute_tokens U ent kb of
        Inl e \<Rightarrow> Inl e
      | Inr sig \<Rightarrow> fill_tokens U kb ents (m(research_entity_id ent \<mapsto> sig)))"

record feature_generator =
  s_tokens :: "string \<rightharpoonup> token_signature"
  t_tokens :: "string \<rightharpoonup> token_signature"

text \<open>The constructor \<open>FeatureGenerator(s_kb, t_kb)\<close>.\<close>

definition FeatureGenerator ::
  "text_tools \<Rightarrow> knowledge_base \<Rightarrow> knowledge_base \<Rightarrow> py_error + feature_generator" where
  "FeatureGenerator U s_kb t_kb =
     (case fill_tokens U s_kb (entities s_kb) Map.empty of
        Inl e \<Rightarrow> Inl e
      | Inr sm \<Rightarrow>
          (case fill_tokens U t_kb (entities t_kb) Map.empty of
             Inl e \<Rightarrow> Inl e
           | Inr tm \<Rightarrow> Inr \<lparr> s_tokens = sm, t_tokens = tm \<rparr>))"

subsection \<open>\<open>calculate_features\<close>\<close>

record features =
  has_same_canonical_name :: bool
  has_same_stemmed_name :: bool
  has_same_lemmatized_name :: bool
  has_same_char_tokens :: bool
  has_alias_in_common :: bool
  name_token_jaccard :: real
  inverse_name_edit_distance :: real
  stemmed_token_jaccard :: real
  inverse_stemmed_edit_distance :: real
  lemmatized_token_jaccard :: real
  inverse_lemmatized_edit_distance :: real
  char_token_jaccard :: real
  inverse_char_token_edit_distance :: real
  max_alias_token_jaccard :: real
  inverse_min_alias_edit_distance :: real
  percent_parents_in_common :: real
  percent_children_in_common :: real

text \<open>
  The four \<open>if features['has_same_...']: ... else: ...\<close> blocks have one shape: with the
  flag set both values are 1.0, otherwise the Jaccard similarity and
  \<open>1 - edit_distance(a, b) / max_changes\<close>, whose division raises when \<open>max_changes\<close> is 0.
\<close>

definition token_similarity :: "bool \<Rightarrow> tokens \<Rightarrow> tokens \<Rightarrow> nat \<Rightarrow> py_error + real \<times> real" where
  "token_similarity same a b max_changes =
     (if same then Inr (1, 1)
      else
        (case py_truediv (real (edit_distance a b)) (real max_changes) of
           Inl e \<Rightarrow> Inl e
         | Inr q \<Rightarrow> Inr (get_jaccard_similarity (set a) (set b), 1 - q)))"

text \<open>
  The body of the alias double loop on the pair \<open>(max_alias_token_jaccard,
  min_alias_edit_distance)\<close>. The guard \<open>if s_a_tokens and t_a_tokens\<close> makes the divisor
  positive.
\<close>

definition alias_step :: "tokens \<Rightarrow> tokens \<Rightarrow> real \<times> real \<Rightarrow> real \<times> real" where
  "alias_step s_a t_a acc =
     (if s_a \<noteq> [] \<and> t_a \<noteq> [] then
        (let j_ind = get_jaccard_similarity (set s_a) (set t_a);
             e_dist = real (edit_distance s_a t_a) / real (length s_a + length t_a)
         in (if j_ind > fst acc then j_ind else fst acc,
             if e_dist < snd acc then e_dist else snd acc))
      else acc)"

definition alias_scan :: "tokens list \<Rightarrow> tokens list \<Rightarrow> real \<times> real \<Rightarrow> real \<times> real" where
  "alias_scan s_al t_al acc = fold (\<lambda>s_a. fold (\<lambda>t_a. alias_step s_a t_a) t_al) s_al acc"

text \<open>The relational overlap of one kind (parents or children).\<close>

definition percent_in_common :: "tokens set \<Rightarrow> tokens set \<Rightarrow> real" where
  "percent_in_common A B =
     (if card A > 0 \<and> card B > 0
      then real (card (A \<inter> B)) / (real (card A + card B) / 2)
      else 0)"

definition features_of :: "token_signature \<Rightarrow> token_signature \<Rightarrow> py_error + features" where
  "features_of s t =
     (let same_name = (name_tokens s = name_tokens t);
          same_stem = (stemmed_tokens s = stemmed_tokens t);
          same_lemma = (lemmatized_tokens s = lemmatized_tokens t);
          same_char = (char_tokens s = char_tokens t);
          alias_common = (card (set (alias_tokens s) \<inter> set (alias_tokens t)) > 0);
          max_changes = length (name_tokens s) + length (name_tokens t);
          max_char_changes = length (char_tokens s) + length (char_tokens t)
      in case token_similarity same_name (name_tokens s) (name_tokens t) max_changes of
           Inl e \<Rightarrow> Inl e
         | Inr nm \<Rightarrow>
      (case token_similarity same_stem (stemmed_tokens s) (stemmed_tokens t) max_changes of
           Inl e \<Rightarrow> Inl e
         | Inr st \<Rightarrow>
      (case token_similarity same_lemma (lemmatized_tokens s) (lemmatized_tokens t) max_changes of
           Inl e \<Rightarrow> Inl e
         | Inr lm \<Rightarrow>
      (case token_similarity same_char (char_tokens s) (char_tokens t) max_char_changes of
           Inl e \<Rightarrow> Inl e
         | Inr ch \<Rightarrow>
             (let al = (if \<not> alias_common
                        then alias_scan (alias_tokens s) (alias_tokens t) (0, 1)
                        else (0, 1))
              in Inr \<lparr> has_same_canonical_name = same_name,
                       has_same_stemmed_name = same_stem,
                       has_same_lemmatized_name = same_lemma,
                       has_same_char_tokens = same_char,
                       has_alias_in_common = alias_common,
                       name_token_jaccard = fst nm,
                       inverse_name_edit_distance = snd nm,
                       stemmed_token_jaccard = fst st,
                       inverse_stemmed_edit_distance = snd st,
                       lemmatized_token_jaccard = fst lm,
                       inverse_lemmatized_edit_distance = snd lm,
                       char_token_jaccard = fst ch,
                       inverse_char_token_edit_distance = snd ch,
                       max_alias_token_jaccard = fst al,
                       inverse_min_alias_edit_distance = 1 - snd al,
                       percent_parents_in_common =
                         percent_in_common (parent_names s) (parent_names t),
                       percent_children_in_common =
                         percent_in_common (child_names s) (child_names t) \<rparr>)))))"

text \<open>\<open>self.s_tokens[s_ent_id]\<close> and \<open>self.t_tokens[t_ent_id]\<close> raise KeyError on a missing id.\<close>

definition calculate_features :: "feature_generator \<Rightarrow> string \<Rightarrow> string \<Rightarrow> py_error + features" where
  "calculate_features fg s_ent_id t_ent_id =
     (case s_tokens fg s_ent_id of
        None \<Rightarrow> Inl KeyError
      | Some s \<Rightarrow>
          (case t_tokens fg t_ent_id of
             None \<Rightarrow> Inl KeyError
           | Some t \<Rightarrow> features_of s t))"

text \<open>
  What \<open>_compute_tokens\<close> guarantees of every cached signature: the stemmed and the
  lemmatized tokens are the name tokens mapped, and the related-name sets come from lists.
\<close>

definition derived_signature :: "text_tools \<Rightarrow> token_signature \<Rightarrow> bool" where
  "derived_signature U sig \<longleftrightarrow>
     stemmed_tokens sig = map (stem U) (name_tokens sig) \<and>
     lemmatized_tokens sig = map (lemmatize U) (name_tokens sig) \<and>
     finite (parent_names sig) \<and> finite (child_names sig)"


text \<open>
  A knowledge base whose relations have their first endpoint replaced (by \<open>g\<close> of the
  relation); used to state that \<open>_get_ent_names_from_relations\<close> never reads
  \<open>entity_ids[0]\<close>.
\<close>

definition replace_first_endpoint :: "(relation \<Rightarrow> string) \<Rightarrow> relation \<Rightarrow> relation" where
  "replace_first_endpoint g r = r\<lparr> entity_ids := (entity_ids r)[0 := g r] \<rparr>"

definition with_first_endpoints :: "(relation \<Rightarrow> string) \<Rightarrow> knowledge_base \<Rightarrow> knowledge_base" where
  "with_first_endpoints g kb =
     kb\<lparr> relations := (\<lambda>rel_id. map_option (replace_first_endpoint g) (relations kb rel_id)) \<rparr>"

section \<open>Floats and their text form\<close>

text \<open>
  A Python float: a finite value, an infinity or NaN. Finite values are kept as exact reals;
  rounding to binary64 is not modelled.
\<close>

datatype pyfloat = Finite real | PosInf | NegInf | NaN

text \<open>The comparison \<open>x > 0.0\<close>.\<close>

fun float_gt_zero :: "pyfloat \<Rightarrow> bool" where
  "float_gt_zero (Finite r) = (r > 0)"
| "float_gt_zero PosInf = True"
| "float_gt_zero NegInf = False"
| "float_gt_zero NaN = False"

text \<open>
  The builtin \<open>float(s)\<close> on an ASCII string: surrounding whitespace is stripped, then an
  optional sign and \<open>inf\<close>, \<open>infinity\<close>, \<open>nan\<close> (any case) or a decimal number with an
  optional exponent, where single underscores may separate digits. \<open>None\<close> is ValueError.
  The value of a decimal is its exact value.
\<close>

definition is_py_space :: "char \<Rightarrow> bool" where
  "is_py_space c = ((of_char c :: nat) \<in> {9, 10, 11, 12, 13, 32})"

definition strip :: "string \<Rightarrow> string" where
  "strip s = rev (dropWhile is_py_space (rev (dropWhile is_py_space s)))"

definition digit_of :: "char \<Rightarrow> nat option" where
  "digit_of c = (let n = (of_char c :: nat) in if 48 \<le> n \<and> n \<le> 57 then Some (n - 48) else None)"

definition ascii_lower :: "char \<Rightarrow> char" where
  "ascii_lower c =
     (let n = (of_char c :: nat) in if 65 \<le> n \<and> n \<le> 90 then char_of (n + 32) else c)"

text \<open>
  The longest digit part at the head of a string, with the rest. The flag says that the
  previous character was a digit, so that an underscore followed by a digit may come next.
\<close>

fun digitpart :: "bool \<Rightarrow> string \<Rightarrow> nat list \<times> string" where
  "digitpart after [] = ([], [])"
| "digitpart after (c # cs) =
     (case digit_of c of
        Some d \<Rightarrow> (case digitpart True cs of (ds, r) \<Rightarrow> (d # ds, r))
      | None \<Rightarrow>
          if after \<and> c = CHR ''_'' \<and> (case cs of [] \<Rightarrow> False | c' # _ \<Rightarrow> digit_of c' \<noteq> None)
          then digitpart False cs
          else ([], c # cs))"

definition digits_value :: "nat list \<Rightarrow> nat" where
  "digits_value ds = foldl (\<lambda>a d. 10 * a + d) 0 ds"

definition split_sign :: "string \<Rightarrow> bool \<times> string" where
  "split_sign s =
     (case s of
        [] \<Rightarrow> (False, [])
      | c # r \<Rightarrow> if c = CHR ''-'' then (True, r) else if c = CHR ''+'' then (False, r) else (False, s))"

text \<open>A decimal number as mantissa and power of ten.\<close>

definition decimal :: "string \<Rightarrow> (nat \<times> int) option" where
  "decimal u =
     (case digitpart False u of (ip, r1) \<Rightarrow>
      (case (case r1 of [] \<Rightarrow> ([], r1)
                      | c # r \<Rightarrow> if c = CHR ''.'' then digitpart False r else ([], r1)) of
         (fp, r2) \<Rightarrow>
           if ip = [] \<and> fp = [] then None
           else
             (case r2 of
                [] \<Rightarrow> Some (digits_value (ip @ fp), - int (length fp))
              | c # r \<Rightarrow>
                  if c = CHR ''e'' \<or> c = CHR ''E'' then
                    (case split_sign r of (eneg, r3) \<Rightarrow>
                     (case digitpart False r3 of (ed, r4) \<Rightarrow>
                        if ed = [] \<or> r4 \<noteq> [] then None
                        else Some (digits_value (ip @ fp),
                                   (if eneg then - int (digits_value ed) else int (digits_value ed))
                                     - int (length fp))))
                  else None)))"

definition scale10 :: "nat \<Rightarrow> int \<Rightarrow> real" where
  "scale10 m e = (if e \<ge> 0 then real m * 10 ^ nat e else real m / 10 ^ nat (- e))"

definition py_float :: "string \<Rightarrow> pyfloat option" where
  "py_float s =
     (case split_sign (strip s) of (neg, u) \<Rightarrow>
        if map ascii_lower u = ''inf'' \<or> map ascii_lower u = ''infinity''
        then Some (if neg then NegInf else PosInf)
        else if map ascii_lower u = ''nan'' then Some NaN
        else
          (case decimal u of
             None \<Rightarrow> None
           | Some (m, e) \<Rightarrow> Some (Finite (if neg then - scale10 m e else scale10 m e))))"

section \<open>OntoEmma: evaluation\<close>

text \<open>
  The third component of a triple that \<open>load_alignment\<close> returns: a float from the TSV
  loader, and from the RDF loader the text of the \<open>measure\<close> element, which is \<open>None\<close> for
  an empty element.
\<close>

datatype measure = MNone | MText string | MFloat pyfloat

type_synonym gold_triple = "string \<times> string \<times> measure"

type_synonym alignment = "(string \<times> string \<times> real) list"

text \<open>
  The filter \<open>score is not None and score != '' and float(score) > 0.0\<close>. \<open>float\<close> of a
  float is the float; \<open>float\<close> of a text raises ValueError when the text does not parse.
\<close>

definition score_positive :: "measure \<Rightarrow> py_error + bool" where
  "score_positive score =
     (case score of
        MNone \<Rightarrow> Inr False
      | MText x \<Rightarrow>
          if x = [] then Inr False
          else (case py_float x of None \<Rightarrow> Inl ValueError | Some f \<Rightarrow> Inr (float_gt_zero f))
      | MFloat f \<Rightarrow> Inr (float_gt_zero f))"

text \<open>The comprehension over the loaded gold triples; the first failing \<open>float\<close> raises.\<close>

fun gold_positives :: "gold_triple list \<Rightarrow> py_error + (string \<times> string) list" where
  "gold_positives [] = Inr []"
| "gold_positives ((s_ent, t_ent, score) # rest) =
     (case score_positive score of
        Inl e \<Rightarrow> Inl e
      | Inr b \<Rightarrow>
          (case gold_positives rest of
             Inl e \<Rightarrow> Inl e
           | Inr ps \<Rightarrow> Inr (if b then (s_ent, t_ent) # ps else ps)))"

fun join :: "string \<Rightarrow> string list \<Rightarrow> string" where
  "join sep [] = []"
| "join sep [x] = x"
| "join sep (x # y # ys) = x @ sep @ join sep (y # ys)"

definition TAB :: string where
  "TAB = [CHR 0x09]"

definition NL :: string where
  "NL = [CHR 0x0A]"

text \<open>
  One line of the missed file. The \<open>AttributeError\<close> of \<open>None.aliases\<close> is caught and
  gives the line with two empty fields.
\<close>

definition missed_line :: "knowledge_base \<Rightarrow> knowledge_base \<Rightarrow> string \<times> string \<Rightarrow> string" where
  "missed_line s_kb t_kb p =
     (case get_entity_by_research_entity_id s_kb (fst p) of
        None \<Rightarrow> fst p @ TAB @ snd p @ TAB @ TAB @ NL
      | Some s \<Rightarrow>
          (case get_entity_by_research_entity_id t_kb (snd p) of
             None \<Rightarrow> fst p @ TAB @ snd p @ TAB @ TAB @ NL
           | Some t \<Rightarrow>
               fst p @ TAB @ snd p @ TAB @ join '','' (aliases s) @ TAB @ join '','' (aliases t) @ NL))"

text \<open>
  What \<open>evaluate_alignment\<close> returns (\<open>None\<close> is Python's \<open>None\<close>) and the lines it writes
  to the missed file, as a set: the source iterates over a set, in no fixed order.
\<close>

record evaluation =
  precision :: "real option"
  recall :: "real option"
  f1_score :: "real option"
  missed_lines :: "string set"

text \<open>
  \<open>evaluate_alignment\<close>, on the triples \<open>self.load_alignment(gold_path)\<close> returns. Both
  divisions are Python's, raising on a zero divisor.
\<close>

definition evaluate_alignment ::
  "gold_triple list \<Rightarrow> alignment \<Rightarrow> knowledge_base \<Rightarrow> knowledge_base \<Rightarrow> py_error + evaluation" where
  "evaluate_alignment gold alignment s_kb t_kb =
     (case gold_positives gold of
        Inl e \<Rightarrow> Inl e
      | Inr gp \<Rightarrow>
          (let gold_pos = set gp;
               alignment_positives = set (map (\<lambda>(s_ent, t_ent, score). (s_ent, t_ent)) alignment);
               missed = gold_pos - alignment_positives;
               lines = missed_line s_kb t_kb ` missed
           in if card alignment_positives > 0 then
                (case py_truediv (real (card (alignment_positives \<inter> gold_pos)))
                        (real (card alignment_positives)) of
                   Inl e \<Rightarrow> Inl e
                 | Inr p \<Rightarrow>
                     (case py_truediv (real (card (alignment_positives \<inter> gold_pos)))
                             (real (card gold_pos)) of
                        Inl e \<Rightarrow> Inl e
                      | Inr r \<Rightarrow>
                          Inr \<lparr> precision = Some p, recall = Some r,
                                f1_score = (if p + r > 0 then Some (2 * p * r / (p + r)) else None),
                                missed_lines = lines \<rparr>))
              else Inr \<lparr> precision = None, recall = None, f1_score = None,
                         missed_lines = lines \<rparr>))"

text \<open>
  The spec's gold positive, for comparison with \<open>score_positive\<close>: the measure is present,
  non-empty, and float-parses to a value greater than 0.
\<close>

definition spec_positive :: "measure \<Rightarrow> bool" where
  "spec_positive m =
     (case m of
        MNone \<Rightarrow> False
      | MText x \<Rightarrow> x \<noteq> [] \<and> (case py_float x of None \<Rightarrow> False | Some f \<Rightarrow> float_gt_zero f)
      | MFloat f \<Rightarrow> float_gt_zero f)"

text \<open>A measure on which \<open>float\<close> raises: a non-empty text that does not parse.\<close>

definition unparsable :: "measure \<Rightarrow> bool" where
  "unparsable m = (case m of MText x \<Rightarrow> x \<noteq> [] \<and> py_float x = None | _ \<Rightarrow> False)"

section \<open>OntoEmma: the prediction loop of \<open>align\<close>\<close>

text \<open>
  \<open>CandidateSelection\<close>, the classifier and \<open>constants\<close> are not in the sources:
  \<open>select_candidates\<close>, the match probability \<open>predict_entity_pair(features)[0][1]\<close>,
  \<open>KEEP_TOP_K_CANDIDATES\<close> and \<open>SCORE_THRESHOLD\<close> are parameters.
\<close>

record matcher =
  select_candidates :: "string \<Rightarrow> string list"
  predict_entity_pair :: "features \<Rightarrow> real"
  KEEP_TOP_K_CANDIDATES :: nat
  SCORE_THRESHOLD :: real

text \<open>
  The state of the loop: the alignment built so far and the pairs handed to the classifier
  so far, in order.
\<close>

type_synonym align_state = "alignment \<times> (string \<times> string) list"

fun score_candidates ::
  "matcher \<Rightarrow> feature_generator \<Rightarrow> string \<Rightarrow> string list \<Rightarrow> align_state \<Rightarrow> py_error + align_state" where
  "score_candidates M fg s_ent_id [] st = Inr st"
| "score_candidates M fg s_ent_id (t_ent_id # cands) st =
     (case calculate_features fg s_ent_id t_ent_id of
        Inl e \<Rightarrow> Inl e
      | Inr f \<Rightarrow>
          (let score = predict_entity_pair M f
           in score_candidates M fg s_ent_id cands
                (if score \<ge> SCORE_THRESHOLD M
                 then fst st @ [(s_ent_id, t_ent_id, score)] else fst st,
                 snd st @ [(s_ent_id, t_ent_id)])))"

fun align_entities ::
  "matcher \<Rightarrow> feature_generator \<Rightarrow> entity list \<Rightarrow> align_state \<Rightarrow> py_error + align_state" where
  "align_entities M fg [] st = Inr st"
| "align_entities M fg (s_ent # ents) st =
     (case score_candidates M fg (research_entity_id s_ent)
             (take (KEEP_TOP_K_CANDIDATES M) (select_candidates M (research_entity_id s_ent))) st of
        Inl e \<Rightarrow> Inl e
      | Inr st' \<Rightarrow> align_entities M fg ents st')"

text \<open>\<open>align\<close> from the construction of the feature generator to the end of the loop.\<close>

definition align_predictions ::
  "text_tools \<Rightarrow> matcher \<Rightarrow> knowledge_base \<Rightarrow> knowledge_base \<Rightarrow> py_error + align_state" where
  "align_predictions U M s_kb t_kb =
     (case FeatureGenerator U s_kb t_kb of
        Inl e \<Rightarrow> Inl e
      | Inr fg \<Rightarrow> align_entities M fg (entities s_kb) ([], []))"

text \<open>What one scored pair adds to the alignment.\<close>

definition kept :: "matcher \<Rightarrow> feature_generator \<Rightarrow> string \<times> string \<Rightarrow> alignment" where
  "kept M fg p =
     (case calculate_features fg (fst p) (snd p) of
        Inl e \<Rightarrow> []
      | Inr f \<Rightarrow>
          if predict_entity_pair M f \<ge> SCORE_THRESHOLD M
          then [(fst p, snd p, predict_entity_pair M f)] else [])"

text \<open>The pairs scored for a list of source entities: the first K candidates of each.\<close>

definition top_k_pairs :: "matcher \<Rightarrow> entity list \<Rightarrow> (string \<times> string) list" where
  "top_k_pairs M ents =
     concat (map (\<lambda>e. map (Pair (research_entity_id e))
                        (take (KEEP_TOP_K_CANDIDATES M) (select_candidates M (research_entity_id e))))
               ents)"

section \<open>The dataset reader\<close>









section \<open>OntoEmma: the TSV files\<close>

subsection \<open>Writing\<close>




subsection \<open>Reading a text file by lines\<close>




subsection \<open>\<open>csv.reader\<close> with a tab delimiter\<close>














subsection \<open>\<open>_load_alignment_from_tsv\<close>\<close>









section \<open>Sample data for evaluating the model\<close>

text \<open>
  A simple instance of the text tools (split on spaces, sliding-window n-grams, identity
  stemmer and lemmatizer) and two small knowledge bases.
\<close>

fun split_words :: "string \<Rightarrow> string \<Rightarrow> string list" where
  "split_words cur [] = (if cur = [] then [] else [cur])"
| "split_words cur (c # cs) =
     (if c = CHR '' '' then (if cur = [] then split_words [] cs else cur # split_words [] cs)
      else split_words (cur @ [c]) cs)"

definition sample_tools :: text_tools where
  "sample_tools = \<lparr> normalize_string = (\<lambda>s. s), tokenize_string = split_words [],
      get_character_n_grams = (\<lambda>s n. if length s \<le> n then [s] else map (\<lambda>i. take n (drop i s)) [0 ..< Suc (length s - n)]),
      stem = (\<lambda>w. w), lemmatize = (\<lambda>w. w), NGRAM_SIZE = 3 \<rparr>"

definition sample_s_entities :: "entity list" where
  "sample_s_entities =
     [\<lparr> research_entity_id = ''s1'', canonical_name = ''heart'',
         aliases = [''heart'', ''cardiac muscle''], relation_ids = [0, 1] \<rparr>,
      \<lparr> research_entity_id = ''s2'', canonical_name = ''organ'', aliases = [], relation_ids = [0] \<rparr>,
      \<lparr> research_entity_id = ''s3'', canonical_name = '''', aliases = [''mitral valve''], relation_ids = [] \<rparr>]"

definition sample_t_entities :: "entity list" where
  "sample_t_entities =
     [\<lparr> research_entity_id = ''t1'', canonical_name = ''heart'',
         aliases = [''cor'', ''heart''], relation_ids = [0] \<rparr>,
      \<lparr> research_entity_id = ''t2'', canonical_name = ''organ'', aliases = [], relation_ids = [] \<rparr>,
      \<lparr> research_entity_id = ''t3'', canonical_name = '''', aliases = [''valve''], relation_ids = [] \<rparr>]"

definition sample_s_kb :: knowledge_base where
  "sample_s_kb =
     \<lparr> entities = sample_s_entities,
       relations = [0 \<mapsto> \<lparr> relation_type = ''is_a'', entity_ids = [''s1'', ''s2''] \<rparr>,
                    1 \<mapsto> \<lparr> relation_type = ''is_a'', entity_ids = [''s1'', ''s9''] \<rparr>],
       research_entity_id_to_entity_index = [''s1'' \<mapsto> 0, ''s2'' \<mapsto> 1, ''s3'' \<mapsto> 2],
       get_entity_by_research_entity_id =
         [''s1'' \<mapsto> sample_s_entities ! 0, ''s2'' \<mapsto> sample_s_entities ! 1,
          ''s3'' \<mapsto> sample_s_entities ! 2] \<rparr>"

definition sample_t_kb :: knowledge_base where
  "sample_t_kb =
     \<lparr> entities = sample_t_entities,
       relations = [0 \<mapsto> \<lparr> relation_type = ''is_a'', entity_ids = [''t1'', ''t2''] \<rparr>],
       research_entity_id_to_entity_index = [''t1'' \<mapsto> 0, ''t2'' \<mapsto> 1, ''t3'' \<mapsto> 2],
       get_entity_by_research_entity_id =
         [''t1'' \<mapsto> sample_t_entities ! 0, ''t2'' \<mapsto> sample_t_entities ! 1,
          ''t3'' \<mapsto> sample_t_entities ! 2] \<rparr>"

definition sample_sig :: "string \<Rightarrow> tokens list \<Rightarrow> tokens list \<Rightarrow> token_signature" where
  "sample_sig name als pars =
     \<lparr> name_tokens = split_words [] name, stemmed_tokens = split_words [] name,
       lemmatized_tokens = split_words [] name,
       char_tokens = get_character_n_grams sample_tools name 3,
       alias_tokens = als, parent_names = set pars, child_names = {} \<rparr>"

definition sample_fg :: feature_generator where
  "sample_fg =
     \<lparr> s_tokens = [''s1'' \<mapsto> sample_sig ''heart'' [[''heart''], [''cardiac'', ''muscle'']] [[''organ'']],
                   ''s2'' \<mapsto> sample_sig ''organ'' [] [[''organ'']],
                   ''s3'' \<mapsto> sample_sig '''' [[''mitral'', ''valve'']] []],
       t_tokens = [''t1'' \<mapsto> sample_sig ''heart'' [[''cor''], [''heart'']] [[''organ'']],
                   ''t2'' \<mapsto> sample_sig ''organ'' [] [],
                   ''t3'' \<mapsto> sample_sig '''' [[''valve'']] []] \<rparr>"


text \<open>
  A matcher for the samples: every source entity gets the same three candidates, the two
  best are kept, and the classifier follows the exact-name flag.
\<close>

definition sample_matcher :: matcher where
  "sample_matcher =
     \<lparr> select_candidates = (\<lambda>s. [''t1'', ''t2'', ''t3'']),
       predict_entity_pair = (\<lambda>f. if has_same_canonical_name f then 9 / 10 else 1 / 10),
       KEEP_TOP_K_CANDIDATES = 2,
       SCORE_THRESHOLD = 1 / 2 \<rparr>"





section \<open>Properties of FeatureGenerator\<close>

lemma compute_tokens_derived:
  "compute_tokens U ent kb = Inr sig \<Longrightarrow> derived_signature U sig"
  by (auto simp: compute_tokens_def derived_signature_def Let_def split: sum.splits)

lemma fill_tokens_derived:
  "fill_tokens U kb ents m = Inr m' \<Longrightarrow> (\<forall>k sig. m k = Some sig \<longrightarrow> derived_signature U sig)
     \<Longrightarrow> m' k = Some sig \<Longrightarrow> derived_signature U sig"
proof (induction ents arbitrary: m)
  case Nil
  then show ?case by simp
next
  case (Cons ent ents)
  from Cons.prems(1) obtain sg where sg: "compute_tokens U ent kb = Inr sg"
    and rest: "fill_tokens U kb ents (m(research_entity_id ent \<mapsto> sg)) = Inr m'"
    by (auto split: sum.splits)
  have "\<forall>k sig. (m(research_entity_id ent \<mapsto> sg)) k = Some sig \<longrightarrow> derived_signature U sig"
    using Cons.prems(2) compute_tokens_derived [OF sg] by auto
  from Cons.IH [OF rest this Cons.prems(3)] show ?case .
qed

lemma FeatureGenerator_derived:
  assumes "FeatureGenerator U s_kb t_kb = Inr fg"
  shows "s_tokens fg k = Some sig \<Longrightarrow> derived_signature U sig"
    and "t_tokens fg k = Some sig \<Longrightarrow> derived_signature U sig"
  using assms
  by (auto simp: FeatureGenerator_def split: sum.splits dest: fill_tokens_derived)

lemma token_similarity_total:
  "length a + length b = n \<Longrightarrow>
   token_similarity (a = b) a b n =
     Inr (if a = b then (1, 1)
          else (get_jaccard_similarity (set a) (set b), 1 - real (edit_distance a b) / real n))"
  by (cases a; cases b) (auto simp: token_similarity_def py_truediv_def)

lemma features_of_derived:
  assumes "derived_signature U s" "derived_signature U t"
  shows "\<exists>f. features_of s t = Inr f"
proof -
  have l1: "length (stemmed_tokens s) + length (stemmed_tokens t) = length (name_tokens s) + length (name_tokens t)"
    and l2: "length (lemmatized_tokens s) + length (lemmatized_tokens t) = length (name_tokens s) + length (name_tokens t)"
    using assms by (simp_all add: derived_signature_def)
  show ?thesis
    unfolding features_of_def Let_def
    by (simp add: token_similarity_total [OF refl] token_similarity_total [OF l1] token_similarity_total [OF l2])
qed

lemma features_of_fields:
  assumes "derived_signature U s" "derived_signature U t"
  shows "\<exists>f. features_of s t = Inr f \<and>
      has_same_canonical_name f = (name_tokens s = name_tokens t) \<and>
      has_same_stemmed_name f = (stemmed_tokens s = stemmed_tokens t) \<and>
      has_same_lemmatized_name f = (lemmatized_tokens s = lemmatized_tokens t) \<and>
      has_same_char_tokens f = (char_tokens s = char_tokens t) \<and>
      has_alias_in_common f = (set (alias_tokens s) \<inter> set (alias_tokens t) \<noteq> {}) \<and>
      (has_same_canonical_name f \<longrightarrow> name_token_jaccard f = 1 \<and> inverse_name_edit_distance f = 1) \<and>
      (has_same_stemmed_name f \<longrightarrow> stemmed_token_jaccard f = 1 \<and> inverse_stemmed_edit_distance f = 1) \<and>
      (has_same_lemmatized_name f \<longrightarrow> lemmatized_token_jaccard f = 1 \<and> inverse_lemmatized_edit_distance f = 1) \<and>
      (has_same_char_tokens f \<longrightarrow> char_token_jaccard f = 1 \<and> inverse_char_token_edit_distance f = 1) \<and>
      (has_alias_in_common f \<longrightarrow> max_alias_token_jaccard f = 0 \<and> inverse_min_alias_edit_distance f = 0) \<and>
      percent_parents_in_common f = percent_in_common (parent_names s) (parent_names t) \<and>
      percent_children_in_common f = percent_in_common (child_names s) (child_names t)"
proof -
  have l1: "length (stemmed_tokens s) + length (stemmed_tokens t) = length (name_tokens s) + length (name_tokens t)"
    and l2: "length (lemmatized_tokens s) + length (lemmatized_tokens t) = length (name_tokens s) + length (name_tokens t)"
    using assms by (simp_all add: derived_signature_def)
  have c: "(0 < card (set (alias_tokens s) \<inter> set (alias_tokens t))) = (set (alias_tokens s) \<inter> set (alias_tokens t) \<noteq> {})"
    by (simp add: card_gt_0_iff)
  show ?thesis
    unfolding features_of_def Let_def
    by (simp add: c token_similarity_total [OF refl] token_similarity_total [OF l1] token_similarity_total [OF l2])
qed

text \<open>
  Claim C6. For parents and for children independently, \<open>calculate_features\<close> sets the
  relational-overlap feature to the size of the intersection of the two related-name sets
  divided by the average of the two set sizes when both sides have at least one related
  name, and to 0.0 otherwise. The generator is any one the constructor returns, and both
  ids are cached.
\<close>

theorem relational_overlap_average:
  assumes "FeatureGenerator U s_kb t_kb = Inr fg"
      and "s_tokens fg s_id = Some s" and "t_tokens fg t_id = Some t"
  shows "\<exists>f. calculate_features fg s_id t_id = Inr f \<and>
     percent_parents_in_common f =
       (if card (parent_names s) \<ge> 1 \<and> card (parent_names t) \<ge> 1
        then real (card (parent_names s \<inter> parent_names t))
               / (real (card (parent_names s) + card (parent_names t)) / 2)
        else 0) \<and>
     percent_children_in_common f =
       (if card (child_names s) \<ge> 1 \<and> card (child_names t) \<ge> 1
        then real (card (child_names s \<inter> child_names t))
               / (real (card (child_names s) + card (child_names t)) / 2)
        else 0)"
proof -
  have ds: "derived_signature U s" and dt: "derived_signature U t"
    using FeatureGenerator_derived [OF assms(1)] assms(2,3) by blast+
  from features_of_fields [OF ds dt] obtain f where
    f: "features_of s t = Inr f"
    and p: "percent_parents_in_common f = percent_in_common (parent_names s) (parent_names t)"
    and c: "percent_children_in_common f = percent_in_common (child_names s) (child_names t)"
    by blast
  have "calculate_features fg s_id t_id = Inr f"
    using assms(2,3) f by (simp add: calculate_features_def)
  moreover have "\<And>A B :: tokens set. percent_in_common A B =
       (if card A \<ge> 1 \<and> card B \<ge> 1
        then real (card (A \<inter> B)) / (real (card A + card B) / 2) else 0)"
    by (simp add: percent_in_common_def Suc_le_eq)
  ultimately show ?thesis using p c by simp
qed

lemma sample_fg_built: "FeatureGenerator sample_tools sample_s_kb sample_t_kb = Inr sample_fg"
  by (simp add: FeatureGenerator_def sample_s_kb_def sample_t_kb_def sample_s_entities_def
      sample_t_entities_def compute_tokens_def get_ent_names_from_relations_def
      PARENT_REL_LABELS_def CHILD_REL_LABELS_def sample_tools_def sample_fg_def sample_sig_def Let_def)


theorem relational_overlap_average_witness:
  "FeatureGenerator sample_tools sample_s_kb sample_t_kb = Inr sample_fg \<and>
   (\<exists>f. calculate_features sample_fg ''s1'' ''t1'' = Inr f \<and>
        percent_parents_in_common f = 1 \<and> percent_children_in_common f = 0)"
proof -
  have s: "s_tokens sample_fg ''s1'' =
      Some (sample_sig ''heart'' [[''heart''], [''cardiac'', ''muscle'']] [[''organ'']])"
    and t: "t_tokens sample_fg ''t1'' = Some (sample_sig ''heart'' [[''cor''], [''heart'']] [[''organ'']])"
    by (simp_all add: sample_fg_def)
  show ?thesis
    using relational_overlap_average [OF sample_fg_built s t]
    by (simp add: sample_fg_built sample_sig_def)
qed

lemma calculate_features_fields:
  assumes "FeatureGenerator U s_kb t_kb = Inr fg"
      and "s_tokens fg s_id = Some s" and "t_tokens fg t_id = Some t"
  shows "calculate_features fg s_id t_id = features_of s t"
    and "derived_signature U s" and "derived_signature U t"
  using FeatureGenerator_derived [OF assms(1)] assms(2,3)
  by (simp_all add: calculate_features_def)

text \<open>
  Claim C5. For every pair of cached ids \<open>calculate_features\<close> returns a feature vector
  (no division by zero); when the canonical-name token sequences are identical (both empty
  included) \<open>has_same_canonical_name\<close> is true and \<open>name_token_jaccard\<close> and
  \<open>inverse_name_edit_distance\<close> are 1.0; and for each of the four textual representations
  a true equality flag gives 1.0 for both values, the short-circuit never reaching the
  division, even with \<open>max_changes = 0\<close>.
\<close>

theorem same_name_short_circuit:
  assumes "FeatureGenerator U s_kb t_kb = Inr fg"
      and "s_tokens fg s_id = Some s" and "t_tokens fg t_id = Some t"
  shows "\<exists>f. calculate_features fg s_id t_id = Inr f \<and>
      (name_tokens s = name_tokens t \<longrightarrow>
         has_same_canonical_name f \<and> name_token_jaccard f = 1 \<and> inverse_name_edit_distance f = 1) \<and>
      (has_same_canonical_name f \<longrightarrow> name_token_jaccard f = 1 \<and> inverse_name_edit_distance f = 1) \<and>
      (has_same_stemmed_name f \<longrightarrow>
         stemmed_token_jaccard f = 1 \<and> inverse_stemmed_edit_distance f = 1) \<and>
      (has_same_lemmatized_name f \<longrightarrow>
         lemmatized_token_jaccard f = 1 \<and> inverse_lemmatized_edit_distance f = 1) \<and>
      (has_same_char_tokens f \<longrightarrow>
         char_token_jaccard f = 1 \<and> inverse_char_token_edit_distance f = 1) \<and>
      token_similarity True a b 0 = Inr (1, 1)"
proof -
  note cf = calculate_features_fields [OF assms]
  from features_of_fields [OF cf(2) cf(3)] obtain f where "features_of s t = Inr f"
    and "has_same_canonical_name f = (name_tokens s = name_tokens t)"
    and "has_same_canonical_name f \<longrightarrow> name_token_jaccard f = 1 \<and> inverse_name_edit_distance f = 1"
    and "has_same_stemmed_name f \<longrightarrow> stemmed_token_jaccard f = 1 \<and> inverse_stemmed_edit_distance f = 1"
    and "has_same_lemmatized_name f \<longrightarrow> lemmatized_token_jaccard f = 1 \<and> inverse_lemmatized_edit_distance f = 1"
    and "has_same_char_tokens f \<longrightarrow> char_token_jaccard f = 1 \<and> inverse_char_token_edit_distance f = 1"
    by blast
  then show ?thesis
    using cf(1) by (auto simp: token_similarity_def)
qed

theorem same_name_short_circuit_witness:
  "FeatureGenerator sample_tools sample_s_kb sample_t_kb = Inr sample_fg \<and>
   name_tokens (sample_sig '''' [[''mitral'', ''valve'']] []) = [] \<and>
   name_tokens (sample_sig '''' [[''valve'']] []) = [] \<and>
   (\<exists>f. calculate_features sample_fg ''s3'' ''t3'' = Inr f \<and>
        has_same_canonical_name f \<and> name_token_jaccard f = 1 \<and> inverse_name_edit_distance f = 1)"
proof -
  have s: "s_tokens sample_fg ''s3'' = Some (sample_sig '''' [[''mitral'', ''valve'']] [])"
    and t: "t_tokens sample_fg ''t3'' = Some (sample_sig '''' [[''valve'']] [])"
    by (simp_all add: sample_fg_def)
  show ?thesis
    using same_name_short_circuit [OF sample_fg_built s t]
    by (auto simp add: sample_fg_built sample_sig_def)
qed

text \<open>
  Claim C3, as amended. When the two entities share an alias token sequence,
  \<open>has_alias_in_common\<close> is true, the best-alias scan is skipped and both alias features
  stay at what the initial values give: \<open>max_alias_token_jaccard\<close> is 0.0 and
  \<open>inverse_min_alias_edit_distance\<close> is \<open>1.0 - 1.0 = 0.0\<close> (the initial value 1.0 is
  that of \<open>min_alias_edit_distance\<close>, not of its inverse).
\<close>

theorem alias_in_common_defaults:
  assumes "FeatureGenerator U s_kb t_kb = Inr fg"
      and "s_tokens fg s_id = Some s" and "t_tokens fg t_id = Some t"
      and "set (alias_tokens s) \<inter> set (alias_tokens t) \<noteq> {}"
  shows "\<exists>f. calculate_features fg s_id t_id = Inr f \<and> has_alias_in_common f \<and>
      max_alias_token_jaccard f = 0 \<and> inverse_min_alias_edit_distance f = 0"
proof -
  note cf = calculate_features_fields [OF assms(1-3)]
  from features_of_fields [OF cf(2) cf(3)] obtain f where "features_of s t = Inr f"
    and "has_alias_in_common f = (set (alias_tokens s) \<inter> set (alias_tokens t) \<noteq> {})"
    and "has_alias_in_common f \<longrightarrow> max_alias_token_jaccard f = 0 \<and> inverse_min_alias_edit_distance f = 0"
    by blast
  then show ?thesis
    using cf(1) assms(4) by auto
qed

theorem alias_in_common_defaults_witness:
  "FeatureGenerator sample_tools sample_s_kb sample_t_kb = Inr sample_fg \<and>
   set (alias_tokens (sample_sig ''heart'' [[''heart''], [''cardiac'', ''muscle'']] [[''organ'']])) \<inter>
   set (alias_tokens (sample_sig ''heart'' [[''cor''], [''heart'']] [[''organ'']])) \<noteq> {} \<and>
   (\<exists>f. calculate_features sample_fg ''s1'' ''t1'' = Inr f \<and> has_alias_in_common f \<and>
      max_alias_token_jaccard f = 0 \<and> inverse_min_alias_edit_distance f = 0)"
proof -
  have s: "s_tokens sample_fg ''s1'' =
      Some (sample_sig ''heart'' [[''heart''], [''cardiac'', ''muscle'']] [[''organ'']])"
    and t: "t_tokens sample_fg ''t1'' = Some (sample_sig ''heart'' [[''cor''], [''heart'']] [[''organ'']])"
    by (simp_all add: sample_fg_def)
  have a: "set (alias_tokens (sample_sig ''heart'' [[''heart''], [''cardiac'', ''muscle'']] [[''organ'']])) \<inter>
   set (alias_tokens (sample_sig ''heart'' [[''cor''], [''heart'']] [[''organ'']])) \<noteq> {}"
    by (simp add: sample_sig_def)
  show ?thesis
    using alias_in_common_defaults [OF sample_fg_built s t a] a
    by (simp add: sample_fg_built)
qed

text \<open>
  Claim C3 as stated fails: for the sample pair \<open>s1\<close>, \<open>t1\<close>, which shares the alias
  \<open>heart\<close>, \<open>inverse_min_alias_edit_distance\<close> is 0.0 and not 1.0.
\<close>

theorem alias_in_common_counterexample:
  "FeatureGenerator sample_tools sample_s_kb sample_t_kb = Inr sample_fg \<and>
   map_sum id has_alias_in_common (calculate_features sample_fg ''s1'' ''t1'') = Inr True \<and>
   map_sum id max_alias_token_jaccard (calculate_features sample_fg ''s1'' ''t1'') = Inr 0 \<and>
   map_sum id inverse_min_alias_edit_distance (calculate_features sample_fg ''s1'' ''t1'') = Inr 0 \<and>
   map_sum id inverse_min_alias_edit_distance (calculate_features sample_fg ''s1'' ''t1'') \<noteq> Inr 1"
  by (simp add: sample_fg_built)
     (simp add: calculate_features_def sample_fg_def sample_sig_def features_of_def Let_def
        token_similarity_def sample_tools_def)

section \<open>Properties of \<open>_get_ent_names_from_relations\<close>\<close>

lemma lookup_relations_rewired:
  "lookup_relations (with_first_endpoints g kb) ids =
     map_sum id (map (replace_first_endpoint g)) (lookup_relations kb ids)"
  by (induction ids) (auto simp: with_first_endpoints_def split: option.splits sum.splits)

lemma second_endpoints_rewired:
  "second_endpoints (with_first_endpoints g kb) T (map (replace_first_endpoint g) rels) =
     second_endpoints kb T rels"
  by (induction rels) (auto simp: with_first_endpoints_def replace_first_endpoint_def split: sum.splits)

lemma resolve_names_rewired:
  "resolve_names U (with_first_endpoints g kb) ids = resolve_names U kb ids"
  by (induction ids) (auto simp: with_first_endpoints_def split: option.splits)

lemma second_endpoints_filter:
  "\<forall>r\<in>set rels. relation_type r \<in> set T \<longrightarrow> 2 \<le> length (entity_ids r) \<Longrightarrow>
   second_endpoints kb T rels =
     Inr (filter (\<lambda>i. i \<in> dom (research_entity_id_to_entity_index kb))
            (map (\<lambda>r. entity_ids r ! 1) (filter (\<lambda>r. relation_type r \<in> set T) rels)))"
  by (induction rels) auto

text \<open>
  Claim C10. \<open>_get_ent_names_from_relations\<close> resolves only \<open>entity_ids[1]\<close> of the
  relations listed in the entity's \<open>relation_ids\<close>: replacing every first endpoint leaves
  the result unchanged, and when the relation subscripts succeed and the matching relations
  have two endpoints the result is the tokenized names of the second endpoints of the
  matching relations that are in the entity index and that the lookup resolves; an endpoint
  absent from the index is left out without an error. So a relation in which the entity is
  the second endpoint contributes the entity's own name, never that of the first endpoint.
\<close>

theorem second_endpoint_only:
  "get_ent_names_from_relations U ent (with_first_endpoints g kb) rel_types =
     get_ent_names_from_relations U ent kb rel_types \<and>
   (lookup_relations kb (relation_ids ent) = Inr rels \<and>
    (\<forall>r\<in>set rels. relation_type r \<in> set rel_types \<longrightarrow> 2 \<le> length (entity_ids r)) \<longrightarrow>
    get_ent_names_from_relations U ent kb rel_types =
      Inr (resolve_names U kb
            (filter (\<lambda>i. i \<in> dom (research_entity_id_to_entity_index kb))
               (map (\<lambda>r. entity_ids r ! 1)
                  (filter (\<lambda>r. relation_type r \<in> set rel_types) rels)))))"
proof (intro conjI impI)
  show "get_ent_names_from_relations U ent (with_first_endpoints g kb) rel_types =
     get_ent_names_from_relations U ent kb rel_types"
    by (cases "lookup_relations kb (relation_ids ent)")
       (auto simp: get_ent_names_from_relations_def lookup_relations_rewired
          second_endpoints_rewired resolve_names_rewired split: sum.splits)
next
  assume "lookup_relations kb (relation_ids ent) = Inr rels \<and>
    (\<forall>r\<in>set rels. relation_type r \<in> set rel_types \<longrightarrow> 2 \<le> length (entity_ids r))"
  then show "get_ent_names_from_relations U ent kb rel_types =
      Inr (resolve_names U kb
            (filter (\<lambda>i. i \<in> dom (research_entity_id_to_entity_index kb))
               (map (\<lambda>r. entity_ids r ! 1)
                  (filter (\<lambda>r. relation_type r \<in> set rel_types) rels))))"
    by (simp add: get_ent_names_from_relations_def second_endpoints_filter)
qed


theorem second_endpoint_only_witness:
  "lookup_relations sample_s_kb (relation_ids (sample_s_entities ! 0)) =
     Inr [\<lparr> relation_type = ''is_a'', entity_ids = [''s1'', ''s2''] \<rparr>,
          \<lparr> relation_type = ''is_a'', entity_ids = [''s1'', ''s9''] \<rparr>] \<and>
   2 \<le> length [''s1'', ''s2''] \<and> 2 \<le> length [''s1'', ''s9''] \<and>
   get_ent_names_from_relations sample_tools (sample_s_entities ! 0) sample_s_kb PARENT_REL_LABELS =
     Inr [[''organ'']] \<and>
   get_ent_names_from_relations sample_tools (sample_s_entities ! 0)
       (with_first_endpoints (\<lambda>r. ''s3'') sample_s_kb) PARENT_REL_LABELS =
     Inr [[''organ'']]"
proof -
  have l: "lookup_relations sample_s_kb (relation_ids (sample_s_entities ! 0)) =
     Inr [\<lparr> relation_type = ''is_a'', entity_ids = [''s1'', ''s2''] \<rparr>,
          \<lparr> relation_type = ''is_a'', entity_ids = [''s1'', ''s9''] \<rparr>]"
    by (simp add: sample_s_kb_def sample_s_entities_def)
  have w: "\<forall>r\<in>set [\<lparr> relation_type = ''is_a'', entity_ids = [''s1'', ''s2''] \<rparr>,
               \<lparr> relation_type = ''is_a'', entity_ids = [''s1'', ''s9''] \<rparr>].
       relation_type r \<in> set PARENT_REL_LABELS \<longrightarrow> 2 \<le> length (entity_ids r)"
    by simp
  have r: "resolve_names sample_tools sample_s_kb [''s2''] = [[''organ'']]"
    by (simp add: sample_s_kb_def sample_s_entities_def sample_tools_def)
  have d: "''s2'' \<in> dom (research_entity_id_to_entity_index sample_s_kb)"
      "''s9'' \<notin> dom (research_entity_id_to_entity_index sample_s_kb)"
    by (simp_all add: sample_s_kb_def)
  show ?thesis
    using second_endpoint_only [of sample_tools "sample_s_entities ! 0" "\<lambda>r. ''s3''" sample_s_kb
        PARENT_REL_LABELS "[\<lparr> relation_type = ''is_a'', entity_ids = [''s1'', ''s2''] \<rparr>,
          \<lparr> relation_type = ''is_a'', entity_ids = [''s1'', ''s9''] \<rparr>]"] l w r d
    by (simp add: PARENT_REL_LABELS_def)
qed

text \<open>s2 is the second endpoint of relation 0 (s1 is_a s2): it gets its own name.\<close>
lemma second_endpoint_own_name:
  "get_ent_names_from_relations sample_tools (sample_s_entities ! 1) sample_s_kb PARENT_REL_LABELS =
     Inr [[''organ'']]"
  by (simp add: get_ent_names_from_relations_def sample_s_kb_def sample_s_entities_def
      sample_tools_def PARENT_REL_LABELS_def)

section \<open>Properties of \<open>evaluate_alignment\<close>\<close>

lemmas py_float_eval = py_float_def strip_def is_py_space_def split_sign_def ascii_lower_def
  decimal_def digit_of_def digits_value_def scale10_def

lemma score_positive_cases:
  "score_positive m = (if unparsable m then Inl ValueError else Inr (spec_positive m))"
  by (cases m) (auto simp: score_positive_def unparsable_def spec_positive_def split: option.splits)

lemma gold_positives_ok:
  "\<forall>g\<in>set gold. \<not> unparsable (snd (snd g)) \<Longrightarrow>
   gold_positives gold =
     Inr (map (\<lambda>g. (fst g, fst (snd g))) (filter (\<lambda>g. spec_positive (snd (snd g))) gold))"
  by (induction gold rule: gold_positives.induct) (auto simp: score_positive_cases)

lemma gold_positives_abort:
  "\<exists>g\<in>set gold. unparsable (snd (snd g)) \<Longrightarrow> gold_positives gold = Inl ValueError"
proof (induction gold)
  case Nil
  then show ?case by simp
next
  case (Cons g rest)
  obtain s_ent t_ent score where g: "g = (s_ent, t_ent, score)"
    by (cases g) auto
  show ?case
  proof (cases "unparsable score")
    case True
    then show ?thesis by (simp add: g score_positive_cases)
  next
    case False
    with Cons g have "gold_positives rest = Inl ValueError" by auto
    with False show ?thesis by (simp add: g score_positive_cases)
  qed
qed

text \<open>
  Claim C2, as amended. When no measure of the gold triples is a non-empty text that fails
  to parse as a float, the gold positives of \<open>evaluate_alignment\<close> are exactly the pairs
  whose measure is present, non-empty and float-parses to a value greater than 0. A
  non-empty measure that does not parse as a float is not treated as non-positive: \<open>float\<close>
  raises ValueError and the evaluation aborts.
\<close>

theorem gold_positives_float_parse:
  "((\<forall>g\<in>set gold. \<not> unparsable (snd (snd g))) \<longrightarrow>
      gold_positives gold =
        Inr (map (\<lambda>g. (fst g, fst (snd g))) (filter (\<lambda>g. spec_positive (snd (snd g))) gold))) \<and>
   ((\<exists>g\<in>set gold. unparsable (snd (snd g))) \<longrightarrow>
      gold_positives gold = Inl ValueError \<and>
      evaluate_alignment gold alignment s_kb t_kb = Inl ValueError)"
  using gold_positives_ok [of gold] gold_positives_abort [of gold]
  by (auto simp: evaluate_alignment_def)

theorem gold_positives_float_parse_witness:
  "\<not> unparsable (MText ''0.9'') \<and> \<not> unparsable (MText '''') \<and> \<not> unparsable MNone \<and>
   \<not> unparsable (MText ''0'') \<and> \<not> unparsable (MFloat (Finite 1)) \<and>
   gold_positives [(''a'', ''b'', MText ''0.9''), (''c'', ''d'', MText ''''), (''e'', ''f'', MNone),
             (''g'', ''h'', MText ''0''), (''i'', ''j'', MFloat (Finite 1))] =
     Inr [(''a'', ''b''), (''i'', ''j'')] \<and>
   unparsable (MText ''='') \<and>
   gold_positives [(''a'', ''b'', MText ''0.9''), (''c'', ''d'', MText ''='')] = Inl ValueError \<and>
   evaluate_alignment [(''a'', ''b'', MText ''0.9''), (''c'', ''d'', MText ''='')]
       [(''a'', ''b'', 9 / 10)] sample_s_kb sample_t_kb = Inl ValueError"
proof -
  have p: "py_float ''0.9'' = Some (Finite (9 / 10))" "py_float ''0'' = Some (Finite 0)"
    "py_float ''='' = None"
    by (simp_all add: py_float_eval)
  have u: "\<forall>g\<in>set [(''a'', ''b'', MText ''0.9''), (''c'', ''d'', MText ''''), (''e'', ''f'', MNone),
             (''g'', ''h'', MText ''0''), (''i'', ''j'', MFloat (Finite 1))].
       \<not> unparsable (snd (snd g))"
    by (simp add: unparsable_def p)
  have v: "\<exists>g\<in>set [(''a'', ''b'', MText ''0.9''), (''c'', ''d'', MText ''='')]. unparsable (snd (snd g))"
    by (simp add: unparsable_def p)
  show ?thesis
    using gold_positives_float_parse [of "[(''a'', ''b'', MText ''0.9''), (''c'', ''d'', MText ''''), (''e'', ''f'', MNone),
             (''g'', ''h'', MText ''0''), (''i'', ''j'', MFloat (Finite 1))]"]
      gold_positives_float_parse [of "[(''a'', ''b'', MText ''0.9''), (''c'', ''d'', MText ''='')]"
         "[(''a'', ''b'', 9 / 10)]" sample_s_kb sample_t_kb] u v
    by (simp add: spec_positive_def unparsable_def p)
qed

text \<open>
  Claim C2 as stated fails: the measure \<open>=\<close> does not parse as a float, and a gold
  alignment holding it aborts the evaluation with ValueError.
\<close>

theorem unparsable_measure_counterexample:
  "py_float ''='' = None \<and>
   evaluate_alignment [(''a'', ''b'', MText ''='')] [(''a'', ''b'', 9 / 10)] sample_s_kb sample_t_kb
     = Inl ValueError"
  by (simp add: evaluate_alignment_def score_positive_def py_float_eval)

text \<open>
  Claim C1. The empty-gold case of the recall is not guarded: with a non-empty predicted
  alignment and no gold positive (an empty gold file, or one whose only label is 0),
  \<open>len(gold_positives)\<close> is 0 and \<open>evaluate_alignment\<close> raises ZeroDivisionError.
\<close>

theorem recall_empty_gold_raises:
  "evaluate_alignment [] [(''a'', ''b'', 9 / 10)] sample_s_kb sample_t_kb = Inl ZeroDivisionError \<and>
   evaluate_alignment [(''a'', ''b'', MFloat (Finite 0))] [(''a'', ''b'', 9 / 10)]
     sample_s_kb sample_t_kb = Inl ZeroDivisionError"
  by (simp add: evaluate_alignment_def score_positive_def py_truediv_def)

lemma empty_gold_raises:
  "gold_positives gold = Inr [] \<Longrightarrow> alignment \<noteq> [] \<Longrightarrow>
   evaluate_alignment gold alignment s_kb t_kb = Inl ZeroDivisionError"
  by (auto simp: evaluate_alignment_def py_truediv_def Let_def card_gt_0_iff)

text \<open>
  Claim C4, as amended. For gold triples with a non-empty gold positive set,
  \<open>evaluate_alignment\<close> on an empty predicted alignment returns precision, recall and F1 all
  \<open>None\<close>: the recall is computed under the guard \<open>len(alignment_positives) > 0\<close> too.
\<close>

theorem empty_alignment_all_undefined:
  assumes "gold_positives gold = Inr gp" and "gp \<noteq> []"
  shows "\<exists>ev. evaluate_alignment gold [] s_kb t_kb = Inr ev \<and>
            precision ev = None \<and> recall ev = None \<and> f1_score ev = None"
  using assms by (simp add: evaluate_alignment_def)

theorem empty_alignment_all_undefined_witness:
  "gold_positives [(''a'', ''b'', MFloat (Finite 1))] = Inr [(''a'', ''b'')] \<and>
   [(''a'', ''b'')] \<noteq> [] \<and>
   (\<exists>ev. evaluate_alignment [(''a'', ''b'', MFloat (Finite 1))] [] sample_s_kb sample_t_kb = Inr ev \<and>
            precision ev = None \<and> recall ev = None \<and> f1_score ev = None)"
proof -
  have g: "gold_positives [(''a'', ''b'', MFloat (Finite 1))] = Inr [(''a'', ''b'')]"
    by (simp add: score_positive_def)
  show ?thesis
    using empty_alignment_all_undefined [OF g, of sample_s_kb sample_t_kb] g by simp
qed

text \<open>
  Claim C4 as stated fails: with one gold positive and an empty predicted alignment the
  recall is \<open>None\<close>, not 0.0.
\<close>

theorem empty_alignment_recall_counterexample:
  "gold_positives [(''a'', ''b'', MFloat (Finite 1))] = Inr [(''a'', ''b'')] \<and>
   map_sum id recall
     (evaluate_alignment [(''a'', ''b'', MFloat (Finite 1))] [] sample_s_kb sample_t_kb) = Inr None \<and>
   map_sum id recall
     (evaluate_alignment [(''a'', ''b'', MFloat (Finite 1))] [] sample_s_kb sample_t_kb) \<noteq> Inr (Some 0)"
  by (simp add: evaluate_alignment_def score_positive_def)

section \<open>Properties of the prediction loop\<close>

lemma fill_tokens_dom:
  "fill_tokens U kb ents m = Inr m' \<Longrightarrow> dom m' = dom m \<union> research_entity_id ` set ents"
  by (induction ents arbitrary: m) (auto split: sum.splits)

lemma calculate_features_total:
  assumes "FeatureGenerator U s_kb t_kb = Inr fg"
      and "s_id \<in> dom (s_tokens fg)" and "t_id \<in> dom (t_tokens fg)"
  shows "\<exists>f. calculate_features fg s_id t_id = Inr f"
proof -
  from assms(2,3) obtain s t where s: "s_tokens fg s_id = Some s" and t: "t_tokens fg t_id = Some t"
    by auto
  note cf = calculate_features_fields [OF assms(1) s t]
  from features_of_derived [OF cf(2) cf(3)] cf(1) show ?thesis by simp
qed

lemma source_ids_cached:
  assumes "FeatureGenerator U s_kb t_kb = Inr fg" and "e \<in> set (entities s_kb)"
  shows "research_entity_id e \<in> dom (s_tokens fg)"
proof -
  from assms(1) obtain sm where sm: "fill_tokens U s_kb (entities s_kb) Map.empty = Inr sm"
    and fg: "s_tokens fg = sm"
    by (auto simp: FeatureGenerator_def split: sum.splits)
  from fill_tokens_dom [OF sm] assms(2) have "research_entity_id e \<in> dom sm" by simp
  with fg show ?thesis by simp
qed

lemma score_candidates_result:
  "\<forall>t\<in>set ts. \<exists>f. calculate_features fg s t = Inr f \<Longrightarrow>
   score_candidates M fg s ts st =
     Inr (fst st @ concat (map (\<lambda>t. kept M fg (s, t)) ts), snd st @ map (Pair s) ts)"
proof (induction ts arbitrary: st)
  case Nil
  then show ?case by simp
next
  case (Cons t ts)
  from Cons.prems obtain f where f: "calculate_features fg s t = Inr f" by auto
  have rest: "\<forall>t\<in>set ts. \<exists>f. calculate_features fg s t = Inr f" using Cons.prems by simp
  show ?case
    by (simp add: f Cons.IH [OF rest] kept_def Let_def)
qed

lemma align_entities_result:
  "\<forall>e\<in>set ents. \<forall>t\<in>set (take (KEEP_TOP_K_CANDIDATES M) (select_candidates M (research_entity_id e))).
       \<exists>f. calculate_features fg (research_entity_id e) t = Inr f \<Longrightarrow>
   align_entities M fg ents st =
     Inr (fst st @ concat (map (kept M fg) (top_k_pairs M ents)), snd st @ top_k_pairs M ents)"
proof (induction ents arbitrary: st)
  case Nil
  then show ?case by (simp add: top_k_pairs_def)
next
  case (Cons e ents)
  have here: "\<forall>t\<in>set (take (KEEP_TOP_K_CANDIDATES M) (select_candidates M (research_entity_id e))).
       \<exists>f. calculate_features fg (research_entity_id e) t = Inr f"
    using Cons.prems by simp
  have rest: "\<forall>e\<in>set ents. \<forall>t\<in>set (take (KEEP_TOP_K_CANDIDATES M) (select_candidates M (research_entity_id e))).
       \<exists>f. calculate_features fg (research_entity_id e) t = Inr f"
    using Cons.prems by simp
  show ?case
    by (simp add: score_candidates_result [OF here] Cons.IH [OF rest] top_k_pairs_def
        map_concat comp_def)
qed

lemma top_k_pairs_bound:
  "length (filter (\<lambda>p. fst p = s) (top_k_pairs M ents))
     \<le> KEEP_TOP_K_CANDIDATES M * count_list (map research_entity_id ents) s"
proof (induction ents)
  case Nil
  then show ?case by (simp add: top_k_pairs_def)
next
  case (Cons e ents)
  have split: "top_k_pairs M (e # ents) =
      map (Pair (research_entity_id e))
        (take (KEEP_TOP_K_CANDIDATES M) (select_candidates M (research_entity_id e)))
      @ top_k_pairs M ents"
    by (simp add: top_k_pairs_def)
  have head: "length (filter (\<lambda>p. fst p = s) (map (Pair (research_entity_id e))
        (take (KEEP_TOP_K_CANDIDATES M) (select_candidates M (research_entity_id e)))))
      \<le> (if research_entity_id e = s then KEEP_TOP_K_CANDIDATES M else 0)"
    by (auto simp: filter_map comp_def)
  show ?case
    using Cons.IH head by (auto simp: split)
qed

lemma kept_member:
  "(s, t, p) \<in> set (kept M fg q) \<longleftrightarrow>
     q = (s, t) \<and>
     (\<exists>f. calculate_features fg s t = Inr f \<and> p = predict_entity_pair M f \<and> SCORE_THRESHOLD M \<le> p)"
  by (cases q; cases "calculate_features fg (fst q) (snd q)") (auto simp: kept_def)

lemma kept_iff:
  "(s, t, p) \<in> set (concat (map (kept M fg) ps)) \<longleftrightarrow>
     (s, t) \<in> set ps \<and>
     (\<exists>f. calculate_features fg s t = Inr f \<and> p = predict_entity_pair M f \<and> SCORE_THRESHOLD M \<le> p)"
  by (auto simp: kept_member)

text \<open>
  Claim C8. In the prediction loop of \<open>align\<close>, when every candidate kept is a cached
  target id (otherwise \<open>calculate_features\<close> raises KeyError), the loop returns; the pairs
  handed to the classifier are, for each source entity in turn, the first
  \<open>KEEP_TOP_K_CANDIDATES\<close> ids of \<open>select_candidates\<close>, so at most that many per occurrence
  of a source id; and a triple \<open>(s, t, p)\<close> is in the alignment if and only if \<open>(s, t)\<close>
  was scored, \<open>p\<close> is the classifier's match probability for its features and
  \<open>p \<ge> SCORE_THRESHOLD\<close>.
\<close>

theorem align_top_k_threshold:
  assumes "FeatureGenerator U s_kb t_kb = Inr fg"
      and "\<forall>e\<in>set (entities s_kb).
             set (take (KEEP_TOP_K_CANDIDATES M) (select_candidates M (research_entity_id e)))
               \<subseteq> dom (t_tokens fg)"
  shows "\<exists>alignment scored.
      align_predictions U M s_kb t_kb = Inr (alignment, scored) \<and>
      scored = top_k_pairs M (entities s_kb) \<and>
      (\<forall>s. length (filter (\<lambda>p. fst p = s) scored)
             \<le> KEEP_TOP_K_CANDIDATES M * count_list (map research_entity_id (entities s_kb)) s) \<and>
      alignment = concat (map (kept M fg) scored) \<and>
      (\<forall>s t p. (s, t, p) \<in> set alignment \<longleftrightarrow>
          (s, t) \<in> set scored \<and>
          (\<exists>f. calculate_features fg s t = Inr f \<and> p = predict_entity_pair M f \<and>
               SCORE_THRESHOLD M \<le> p))"
proof -
  have tot: "\<forall>e\<in>set (entities s_kb).
      \<forall>t\<in>set (take (KEEP_TOP_K_CANDIDATES M) (select_candidates M (research_entity_id e))).
       \<exists>f. calculate_features fg (research_entity_id e) t = Inr f"
    using assms(2) calculate_features_total [OF assms(1) source_ids_cached [OF assms(1)]]
    by blast
  have "align_predictions U M s_kb t_kb =
      Inr (concat (map (kept M fg) (top_k_pairs M (entities s_kb))), top_k_pairs M (entities s_kb))"
    by (simp add: align_predictions_def assms(1) align_entities_result [OF tot])
  then show ?thesis
    using top_k_pairs_bound [of _ M "entities s_kb"] kept_iff [of _ _ _ M fg "top_k_pairs M (entities s_kb)"]
    by simp
qed

lemma sample_features:
  "calculate_features sample_fg ''s1'' ''t1'' = Inr f \<Longrightarrow> has_same_canonical_name f"
  "calculate_features sample_fg ''s1'' ''t2'' = Inr f \<Longrightarrow> \<not> has_same_canonical_name f"
  "calculate_features sample_fg ''s2'' ''t1'' = Inr f \<Longrightarrow> \<not> has_same_canonical_name f"
  "calculate_features sample_fg ''s2'' ''t2'' = Inr f \<Longrightarrow> has_same_canonical_name f"
  "calculate_features sample_fg ''s3'' ''t1'' = Inr f \<Longrightarrow> \<not> has_same_canonical_name f"
  "calculate_features sample_fg ''s3'' ''t2'' = Inr f \<Longrightarrow> \<not> has_same_canonical_name f"
  by (auto simp: calculate_features_def sample_fg_def sample_sig_def features_of_def Let_def
        token_similarity_def py_truediv_def sample_tools_def split: if_splits)

lemma sample_total:
  "\<exists>f. calculate_features sample_fg ''s1'' ''t1'' = Inr f"
  "\<exists>f. calculate_features sample_fg ''s2'' ''t2'' = Inr f"
proof -
  have d: "''s1'' \<in> dom (s_tokens sample_fg)" "''s2'' \<in> dom (s_tokens sample_fg)"
    "''t1'' \<in> dom (t_tokens sample_fg)" "''t2'' \<in> dom (t_tokens sample_fg)"
    by (simp_all add: sample_fg_def)
  show "\<exists>f. calculate_features sample_fg ''s1'' ''t1'' = Inr f"
    by (rule calculate_features_total [OF sample_fg_built d(1) d(3)])
  show "\<exists>f. calculate_features sample_fg ''s2'' ''t2'' = Inr f"
    by (rule calculate_features_total [OF sample_fg_built d(2) d(4)])
qed

theorem align_top_k_threshold_witness:
  "FeatureGenerator sample_tools sample_s_kb sample_t_kb = Inr sample_fg \<and>
   align_predictions sample_tools sample_matcher sample_s_kb sample_t_kb =
     Inr ([(''s1'', ''t1'', 9 / 10), (''s2'', ''t2'', 9 / 10)],
          [(''s1'', ''t1''), (''s1'', ''t2''), (''s2'', ''t1''), (''s2'', ''t2''),
           (''s3'', ''t1''), (''s3'', ''t2'')])"
proof -
  have h: "\<forall>e\<in>set (entities sample_s_kb).
             set (take (KEEP_TOP_K_CANDIDATES sample_matcher)
                    (select_candidates sample_matcher (research_entity_id e)))
               \<subseteq> dom (t_tokens sample_fg)"
    by (simp add: sample_s_kb_def sample_s_entities_def sample_matcher_def sample_fg_def)
  have k: "top_k_pairs sample_matcher (entities sample_s_kb) =
      [(''s1'', ''t1''), (''s1'', ''t2''), (''s2'', ''t1''), (''s2'', ''t2''),
           (''s3'', ''t1''), (''s3'', ''t2'')]"
    by (simp add: top_k_pairs_def sample_s_kb_def sample_s_entities_def sample_matcher_def)
  have c: "kept sample_matcher sample_fg (''s1'', ''t1'') = [(''s1'', ''t1'', 9 / 10)]"
      "kept sample_matcher sample_fg (''s1'', ''t2'') = []"
      "kept sample_matcher sample_fg (''s2'', ''t1'') = []"
      "kept sample_matcher sample_fg (''s2'', ''t2'') = [(''s2'', ''t2'', 9 / 10)]"
      "kept sample_matcher sample_fg (''s3'', ''t1'') = []"
      "kept sample_matcher sample_fg (''s3'', ''t2'') = []"
    using sample_total
    by (auto simp: kept_def sample_matcher_def split: sum.splits dest: sample_features)
  show ?thesis
    using align_top_k_threshold [OF sample_fg_built h]
    by (auto simp: sample_fg_built k c)
qed

section \<open>Properties of the dataset reader\<close>






section \<open>Properties of the TSV files\<close>

subsection \<open>Lines\<close>




subsection \<open>One field\<close>







subsection \<open>One line and the whole file\<close>
















end
